theory Spec2Isabelle
  imports Main
begin

section \<open>Library service: scan orchestration\<close>

text \<open>
  A shallow embedding of \<^verbatim>\<open>/services/library-service/index.js\<close> (the variant with
  Consul discovery and a gRPC scanner agent): the \<^verbatim>\<open>authenticateToken\<close> middleware, the
  \<^verbatim>\<open>POST /libraries/:id/scan\<close> handler, and the two start-up functions
  \<^verbatim>\<open>initializeDatabase\<close> and \<^verbatim>\<open>connectRabbitMQ\<close>.

  The handler talks to five external systems (JWT library, PostgreSQL pool, Consul, the
  gRPC agent, the RabbitMQ channel). Each of them is a field of the record \<open>world\<close>:
  a function from the arguments of the call to its outcome, \<open>Inl err\<close> when the call
  throws or rejects and \<open>Inr v\<close> when it returns or resolves. Every external call the handler
  makes is appended to a list of effects, so that "no RPC occurs" or "k messages are
  published" are statements about that list. Console output is not modelled.
\<close>

subsection \<open>JavaScript values, errors, responses\<close>

datatype js_value = JSUndefined | JSNull | JSNum int | JSStr string

text \<open>A thrown value: the two properties the \<^verbatim>\<open>catch\<close> block reads.\<close>

record js_error =
  code :: js_value
  message :: js_value

text \<open>\<^verbatim>\<open>res.status(n).json({...})\<close>: the status and the object's properties in order.\<close>

record http_response =
  status :: nat
  json :: "(string \<times> js_value) list"

text \<open>
  The status enumeration of \<^verbatim>\<open>@grpc/grpc-js\<close> (\<^verbatim>\<open>grpc.status\<close>), with the numbers
  the gRPC protocol fixes for these three codes.
\<close>

definition grpc_status_DEADLINE_EXCEEDED :: int where
  "grpc_status_DEADLINE_EXCEEDED = 4"

definition grpc_status_NOT_FOUND :: int where
  "grpc_status_NOT_FOUND = 5"

definition grpc_status_UNAVAILABLE :: int where
  "grpc_status_UNAVAILABLE = 14"

subsection \<open>Data\<close>

text \<open>A row of table \<^verbatim>\<open>libraries\<close>.\<close>

record library =
  id_lib :: int
  name :: string
  path_on_agent :: string
  agent_tag :: string

text \<open>The decoded JWT payload that \<^verbatim>\<open>jwt.verify\<close> hands to its callback.\<close>

record user =
  id_user :: int
  username :: string

text \<open>An entry of Consul's health answer; the handler reads \<^verbatim>\<open>.Service.Address\<close> and
  \<^verbatim>\<open>.Service.Port\<close>.\<close>

record agent_node =
  Address :: string
  Port :: nat

record service_entry =
  Service :: agent_node

record file_info =
  file_path :: string
  file_size_bytes :: js_value
  last_modified :: js_value

text \<open>\<^verbatim>\<open>scanResponse.files_found\<close> may be missing (\<open>None\<close>: undefined or null).\<close>

record scan_response =
  files_found :: "file_info list option"

text \<open>The object that is serialised into the queue message. The JSON text and the
  \<^verbatim>\<open>Buffer\<close> around it are not modelled: the message is kept as the object.\<close>

record queue_message =
  libraryId_msg :: int
  file_path_msg :: string
  file_size_bytes_msg :: js_value
  last_modified_msg :: js_value

datatype channel = Channel nat

record request =
  authorization :: "string option"
  params_id :: string

subsection \<open>External calls and their outcomes\<close>

datatype effect =
    PoolQuery string "string list"
  | ConsulHealthService string bool
  | GrpcScanPath string string int
  | SendToQueue string queue_message bool

text \<open>
  \<open>PoolQuery sql params\<close>; \<open>ConsulHealthService service passing\<close>;
  \<open>GrpcScanPath address path_to_scan deadline\<close> (deadline in milliseconds since the
  epoch); \<open>SendToQueue queue message persistent\<close>.

  \<open>sendToQueue w i m\<close> is the outcome of the \<open>i\<close>-th publish of the request (counted
  from 0): it throws, or returns the flow-control boolean, which the handler ignores.
  \<open>now\<close> is the time value of \<^verbatim>\<open>new Date()\<close>, in milliseconds since the epoch
  (UTC). \<open>LocalTZA w t isUTC\<close> is the offset of the host's local time zone in
  milliseconds, as in ECMAScript's abstract operation of that name: for \<open>isUTC = True\<close>
  the offset in effect at the UTC time \<open>t\<close>; for \<open>isUTC = False\<close> the offset with which
  the local time \<open>t\<close> is read.
\<close>

record world =
  jwt_verify :: "string \<Rightarrow> js_error + user"
  pool_query :: "string \<Rightarrow> string list \<Rightarrow> js_error + library list"
  consul_health_service :: "string \<Rightarrow> js_error + service_entry list"
  ScanPath :: "string \<Rightarrow> string \<Rightarrow> js_error + scan_response"
  sendToQueue :: "nat \<Rightarrow> queue_message \<Rightarrow> js_error + bool"
  now :: int
  LocalTZA :: "int \<Rightarrow> bool \<Rightarrow> int"

definition METADATA_QUEUE :: string where
  "METADATA_QUEUE = ''metadata_requests''"

subsection \<open>String helpers of the JavaScript runtime\<close>

text \<open>\<^verbatim>\<open>s.split(' ')\<close>: the pieces between single spaces, empty pieces included.\<close>

fun split_space :: "string \<Rightarrow> string list" where
  "split_space [] = [[]]"
| "split_space (c # cs) =
     (if c = CHR '' '' then [] # split_space cs
      else (case split_space cs of
              [] \<Rightarrow> [[c]]
            | p # ps \<Rightarrow> (c # p) # ps))"

text \<open>\<^verbatim>\<open>xs[i]\<close> on an array: undefined (\<open>None\<close>) out of range.\<close>

fun js_index :: "'a list \<Rightarrow> nat \<Rightarrow> 'a option" where
  "js_index [] i = None"
| "js_index (x # xs) 0 = Some x"
| "js_index (x # xs) (Suc i) = js_index xs i"

text \<open>Decimal text of a non-negative integer, as a template literal prints a number.\<close>

fun string_of_nat :: "nat \<Rightarrow> string" where
  "string_of_nat n =
     (if n < 10 then [''0123456789'' ! n]
      else string_of_nat (n div 10) @ [''0123456789'' ! (n mod 10)])"

declare string_of_nat.simps [simp del]

subsection \<open>The middleware \<^verbatim>\<open>authenticateToken\<close>\<close>

text \<open>
  \<^verbatim>\<open>const token = authHeader && authHeader.split(' ')[1]\<close>: an absent header gives
  undefined, an empty header gives the empty string (it is falsy, so \<^verbatim>\<open>&&\<close> returns
  it), any other header gives the second piece, undefined when there is none.
\<close>

definition token_of :: "string option \<Rightarrow> string option" where
  "token_of authHeader =
     (case authHeader of
        None \<Rightarrow> None
      | Some h \<Rightarrow> if h = [] then Some [] else js_index (split_space h) 1)"

text \<open>\<open>Inl\<close>: the middleware answered itself; \<open>Inr u\<close>: it set \<^verbatim>\<open>req.user\<close> and
  called \<^verbatim>\<open>next()\<close>.\<close>

definition authenticateToken :: "world \<Rightarrow> request \<Rightarrow> http_response + user" where
  "authenticateToken w req =
     (case token_of (authorization req) of
        None \<Rightarrow> Inl \<lparr>status = 401, json = [(''message'', JSStr ''Token non fornito'')]\<rparr>
      | Some token \<Rightarrow>
          (case jwt_verify w token of
             Inl err \<Rightarrow> Inl \<lparr>status = 403, json = [(''message'', JSStr ''Token non valido'')]\<rparr>
           | Inr u \<Rightarrow> Inr u))"

subsection \<open>The handler of \<^verbatim>\<open>POST /libraries/:id/scan\<close>\<close>

text \<open>The \<^verbatim>\<open>message\<close> object built for one file.\<close>

definition message_of :: "library \<Rightarrow> file_info \<Rightarrow> queue_message" where
  "message_of lib file =
     \<lparr>libraryId_msg = id_lib lib,
      file_path_msg = file_path file,
      file_size_bytes_msg = file_size_bytes file,
      last_modified_msg = last_modified file\<rparr>"

text \<open>The \<^verbatim>\<open>for (const file of filesFound)\<close> loop, entered only with a channel. It
  returns the publishes made and either the error a publish threw or the final
  \<^verbatim>\<open>publishedCount\<close>.\<close>

fun fanout :: "world \<Rightarrow> library \<Rightarrow> file_info list \<Rightarrow> nat \<Rightarrow> effect list \<times> (js_error + nat)" where
  "fanout w lib [] publishedCount = ([], Inr publishedCount)"
| "fanout w lib (file # files) publishedCount =
     (let msg = message_of lib file;
          ev = SendToQueue METADATA_QUEUE msg True
      in case sendToQueue w publishedCount msg of
           Inl err \<Rightarrow> ([ev], Inl err)
         | Inr flow \<Rightarrow>
             (case fanout w lib files (publishedCount + 1) of
                (evs, r) \<Rightarrow> (ev # evs, r)))"

text \<open>\<^verbatim>\<open>scanResponse.files_found || []\<close>: an array, also an empty one, is truthy.\<close>

definition filesFound_of :: "scan_response \<Rightarrow> file_info list" where
  "filesFound_of scanResponse =
     (case files_found scanResponse of None \<Rightarrow> [] | Some fs \<Rightarrow> fs)"

definition scan_ok :: "file_info list \<Rightarrow> http_response" where
  "scan_ok filesFound =
     \<lparr>status = 200,
      json = [(''message'', JSStr ''Scan completed and messages sent for processing.''),
              (''files_found_count'', JSNum (int (length filesFound)))]\<rparr>"

text \<open>Step 4 and 5 of the \<^verbatim>\<open>try\<close> block, after the gRPC call has resolved.\<close>

definition scan_publish ::
  "world \<Rightarrow> channel option \<Rightarrow> library \<Rightarrow> scan_response \<Rightarrow> effect list \<times> (js_error + http_response)" where
  "scan_publish w rabbitChannel lib scanResponse =
     (let filesFound = filesFound_of scanResponse
      in case rabbitChannel of
           None \<Rightarrow> ([], Inr (scan_ok filesFound))
         | Some ch \<Rightarrow>
             (case fanout w lib filesFound 0 of
                (evs, Inl err) \<Rightarrow> (evs, Inl err)
              | (evs, Inr publishedCount) \<Rightarrow> (evs, Inr (scan_ok filesFound))))"

definition agentAddress :: "agent_node \<Rightarrow> string" where
  "agentAddress agentNode = Address agentNode @ '':'' @ string_of_nat (Port agentNode)"

text \<open>
  \<^verbatim>\<open>Date.prototype.getMinutes\<close> and \<^verbatim>\<open>setMinutes\<close> as ECMAScript defines them, on
  time values in milliseconds. Both work on local time: \<^verbatim>\<open>setMinutes\<close> rebuilds the
  local date with the new minutes (minutes beyond 59 carry over) and converts it back to
  UTC. \<open>div\<close> and \<open>mod\<close> on \<open>int\<close> round down, as \<^verbatim>\<open>floor\<close> and the
  specification's modulo do. \<^verbatim>\<open>TimeClip\<close> is left out: it only rejects time values
  beyond 8.64e15.
\<close>

definition Day :: "int \<Rightarrow> int" where
  "Day t = t div 86400000"

definition HourFromTime :: "int \<Rightarrow> int" where
  "HourFromTime t = (t div 3600000) mod 24"

definition MinFromTime :: "int \<Rightarrow> int" where
  "MinFromTime t = (t div 60000) mod 60"

definition SecFromTime :: "int \<Rightarrow> int" where
  "SecFromTime t = (t div 1000) mod 60"

definition msFromTime :: "int \<Rightarrow> int" where
  "msFromTime t = t mod 1000"

definition MakeTime :: "int \<Rightarrow> int \<Rightarrow> int \<Rightarrow> int \<Rightarrow> int" where
  "MakeTime hour minute sec ms = hour * 3600000 + minute * 60000 + sec * 1000 + ms"

definition MakeDate :: "int \<Rightarrow> int \<Rightarrow> int" where
  "MakeDate day time = day * 86400000 + time"

definition LocalTime :: "world \<Rightarrow> int \<Rightarrow> int" where
  "LocalTime w t = t + LocalTZA w t True"

definition UTC_of :: "world \<Rightarrow> int \<Rightarrow> int" where
  "UTC_of w t = t - LocalTZA w t False"

definition getMinutes :: "world \<Rightarrow> int \<Rightarrow> int" where
  "getMinutes w t = MinFromTime (LocalTime w t)"

definition setMinutes :: "world \<Rightarrow> int \<Rightarrow> int \<Rightarrow> int" where
  "setMinutes w t m =
     (let tl = LocalTime w t;
          date = MakeDate (Day tl) (MakeTime (HourFromTime tl) m (SecFromTime tl) (msFromTime tl))
      in UTC_of w date)"

text \<open>\<^verbatim>\<open>const deadline = new Date(); deadline.setMinutes(deadline.getMinutes() + 10)\<close>.\<close>

definition deadline_of :: "world \<Rightarrow> int" where
  "deadline_of w = setMinutes w (now w) (getMinutes w (now w) + 10)"

text \<open>Step 3 of the \<^verbatim>\<open>try\<close> block: the gRPC call on the first service entry.\<close>

definition scan_rpc ::
  "world \<Rightarrow> channel option \<Rightarrow> library \<Rightarrow> service_entry list \<Rightarrow> effect list \<times> (js_error + http_response)" where
  "scan_rpc w rabbitChannel lib services =
     (let agentNode = Service (services ! 0);
          ev = GrpcScanPath (agentAddress agentNode) (path_on_agent lib) (deadline_of w)
      in case ScanPath w (agentAddress agentNode) (path_on_agent lib) of
           Inl err \<Rightarrow> ([ev], Inl err)
         | Inr scanResponse \<Rightarrow>
             (case scan_publish w rabbitChannel lib scanResponse of
                (evs, r) \<Rightarrow> (ev # evs, r)))"

text \<open>Step 2 of the \<^verbatim>\<open>try\<close> block: the Consul query for passing instances.\<close>

definition scan_resolve ::
  "world \<Rightarrow> channel option \<Rightarrow> library \<Rightarrow> effect list \<times> (js_error + http_response)" where
  "scan_resolve w rabbitChannel lib =
     (let ev = ConsulHealthService (agent_tag lib) True
      in case consul_health_service w (agent_tag lib) of
           Inl err \<Rightarrow> ([ev], Inl err)
         | Inr services \<Rightarrow>
             if length services = 0
             then ([ev], Inr \<lparr>status = 404,
                              json = [(''message'',
                                       JSStr (''Nessun agente 'sano' trovato per '' @ agent_tag lib))]\<rparr>)
             else (case scan_rpc w rabbitChannel lib services of
                     (evs, r) \<Rightarrow> (ev # evs, r)))"

definition SELECT_LIBRARY :: string where
  "SELECT_LIBRARY = ''SELECT * FROM libraries WHERE id = $1''"

text \<open>The whole \<^verbatim>\<open>try\<close> block: \<open>Inl err\<close> is the value that reaches \<^verbatim>\<open>catch\<close>.\<close>

definition scan_try ::
  "world \<Rightarrow> channel option \<Rightarrow> string \<Rightarrow> effect list \<times> (js_error + http_response)" where
  "scan_try w rabbitChannel libraryId =
     (let ev = PoolQuery SELECT_LIBRARY [libraryId]
      in case pool_query w SELECT_LIBRARY [libraryId] of
           Inl err \<Rightarrow> ([ev], Inl err)
         | Inr rows \<Rightarrow>
             (case js_index rows 0 of
                None \<Rightarrow> ([ev], Inr \<lparr>status = 404,
                                    json = [(''message'', JSStr ''Libreria non trovata'')]\<rparr>)
              | Some lib \<Rightarrow>
                  (case scan_resolve w rabbitChannel lib of
                     (evs, r) \<Rightarrow> (ev # evs, r))))"

text \<open>The \<^verbatim>\<open>catch\<close> block; \<^verbatim>\<open>===\<close> compares with the numeric status codes.\<close>

definition scan_catch :: "js_error \<Rightarrow> http_response" where
  "scan_catch err =
     (if code err = JSNum grpc_status_DEADLINE_EXCEEDED
      then \<lparr>status = 504, json = [(''message'', JSStr ''Timeout: the scan is taking too long.'')]\<rparr>
      else if code err = JSNum grpc_status_UNAVAILABLE \<or> code err = JSNum grpc_status_NOT_FOUND
      then \<lparr>status = 503, json = [(''message'', JSStr ''Agent service not reachable or not found.'')]\<rparr>
      else \<lparr>status = 500, json = [(''message'', JSStr ''Internal server error''),
                                   (''error'', message err)]\<rparr>)"

definition scan_handler :: "world \<Rightarrow> channel option \<Rightarrow> request \<Rightarrow> http_response \<times> effect list" where
  "scan_handler w rabbitChannel req =
     (case scan_try w rabbitChannel (params_id req) of
        (evs, Inr res) \<Rightarrow> (res, evs)
      | (evs, Inl err) \<Rightarrow> (scan_catch err, evs))"

text \<open>The route: \<^verbatim>\<open>app.post('/libraries/:id/scan', authenticateToken, handler)\<close>.\<close>

definition post_libraries_id_scan ::
  "world \<Rightarrow> channel option \<Rightarrow> request \<Rightarrow> http_response \<times> effect list" where
  "post_libraries_id_scan w rabbitChannel req =
     (case authenticateToken w req of
        Inl res \<Rightarrow> (res, [])
      | Inr u \<Rightarrow> scan_handler w rabbitChannel req)"

text \<open>What is counted in the effects of a request.\<close>

fun is_publish :: "effect \<Rightarrow> bool" where
  "is_publish (SendToQueue q m p) = True"
| "is_publish e = False"

fun is_rpc :: "effect \<Rightarrow> bool" where
  "is_rpc (GrpcScanPath a p d) = True"
| "is_rpc e = False"

definition publishes :: "effect list \<Rightarrow> effect list" where
  "publishes evs = filter is_publish evs"

section \<open>Start-up: \<^verbatim>\<open>initializeDatabase\<close> and \<^verbatim>\<open>connectRabbitMQ\<close>\<close>

text \<open>
  Both functions are \<^verbatim>\<open>async\<close> with one \<^verbatim>\<open>try\<close>/\<^verbatim>\<open>catch\<close>; the \<^verbatim>\<open>catch\<close>
  registers the function itself with \<^verbatim>\<open>setTimeout(..., 5000)\<close>. A call runs up to its
  first \<^verbatim>\<open>await\<close> and suspends there; it goes on when the awaited promise settles, up
  to the next \<^verbatim>\<open>await\<close> or to its end. \<^verbatim>\<open>app.listen\<close>'s callback calls both functions
  without awaiting them, so their runs interleave in the order in which the promises
  settle.

  The process state holds the module variable \<^verbatim>\<open>rabbitChannel\<close>, the timers that are
  registered and have not fired yet (callback and delay in milliseconds, in registration
  order), the timers that have fired, the suspended runs, the queue declarations that
  resolved, and how often each function has been called.
\<close>

datatype timer_callback = Cb_initializeDatabase | Cb_connectRabbitMQ

text \<open>
  A suspended run, with the number of the call it belongs to: \<^verbatim>\<open>initializeDatabase\<close>
  awaiting \<^verbatim>\<open>pool.query\<close>; \<^verbatim>\<open>connectRabbitMQ\<close> awaiting \<^verbatim>\<open>amqp.connect\<close>,
  \<^verbatim>\<open>createChannel\<close>, or \<^verbatim>\<open>assertQueue\<close> on the channel it has just stored.
\<close>

datatype run =
    Await_query nat
  | Await_connect nat
  | Await_createChannel nat
  | Await_assertQueue nat channel

record process_state =
  rabbitChannel :: "channel option"
  timers :: "(timer_callback \<times> nat) list"
  fired :: "(timer_callback \<times> nat) list"
  suspended :: "run list"
  asserted :: "(channel \<times> string \<times> bool) list"
  db_calls :: nat
  amqp_calls :: nat

text \<open>
  The outcomes of the awaited calls, by the number of the call of the function that makes
  them: \<open>create_table bw i\<close> is the \<^verbatim>\<open>CREATE TABLE IF NOT EXISTS\<close> query (\<open>None\<close>: it
  resolves); \<open>amqp_connect\<close>, \<open>createChannel\<close> and \<open>assertQueue\<close> are the three
  steps of \<^verbatim>\<open>connectRabbitMQ\<close>.
\<close>

record boot_world =
  create_table :: "nat \<Rightarrow> js_error option"
  amqp_connect :: "nat \<Rightarrow> js_error option"
  createChannel :: "nat \<Rightarrow> js_error + channel"
  assertQueue :: "nat \<Rightarrow> js_error option"

definition setTimeout :: "timer_callback \<Rightarrow> nat \<Rightarrow> process_state \<Rightarrow> process_state" where
  "setTimeout cb ms s = s\<lparr>timers := timers s @ [(cb, ms)]\<rparr>"

text \<open>Calling a function: it issues its first request and suspends.\<close>

definition initializeDatabase :: "process_state \<Rightarrow> process_state" where
  "initializeDatabase s =
     s\<lparr>suspended := suspended s @ [Await_query (db_calls s)], db_calls := db_calls s + 1\<rparr>"

definition connectRabbitMQ :: "process_state \<Rightarrow> process_state" where
  "connectRabbitMQ s =
     s\<lparr>suspended := suspended s @ [Await_connect (amqp_calls s)], amqp_calls := amqp_calls s + 1\<rparr>"

text \<open>
  The rest of a run from the \<^verbatim>\<open>await\<close> where it is suspended, once the promise has
  settled: a rejection goes to the \<^verbatim>\<open>catch\<close>, which registers the retry; otherwise the
  run goes on. \<^verbatim>\<open>rabbitChannel\<close> is assigned as soon as \<^verbatim>\<open>createChannel\<close> resolves,
  before the queue is declared.
\<close>

definition resume :: "boot_world \<Rightarrow> run \<Rightarrow> process_state \<Rightarrow> process_state" where
  "resume bw r s =
     (case r of
        Await_query i \<Rightarrow>
          (case create_table bw i of
             None \<Rightarrow> s
           | Some err \<Rightarrow> setTimeout Cb_initializeDatabase 5000 s)
      | Await_connect i \<Rightarrow>
          (case amqp_connect bw i of
             Some err \<Rightarrow> setTimeout Cb_connectRabbitMQ 5000 s
           | None \<Rightarrow> s\<lparr>suspended := suspended s @ [Await_createChannel i]\<rparr>)
      | Await_createChannel i \<Rightarrow>
          (case createChannel bw i of
             Inl err \<Rightarrow> setTimeout Cb_connectRabbitMQ 5000 s
           | Inr ch \<Rightarrow> s\<lparr>rabbitChannel := Some ch,
                          suspended := suspended s @ [Await_assertQueue i ch]\<rparr>)
      | Await_assertQueue i ch \<Rightarrow>
          (case assertQueue bw i of
             Some err \<Rightarrow> setTimeout Cb_connectRabbitMQ 5000 s
           | None \<Rightarrow> s\<lparr>asserted := asserted s @ [(ch, METADATA_QUEUE, True)]\<rparr>))"

text \<open>The callback of \<^verbatim>\<open>app.listen\<close>: both functions are called, neither is awaited.\<close>

definition initial_state :: process_state where
  "initial_state = \<lparr>rabbitChannel = None, timers = [], fired = [], suspended = [],
                    asserted = [], db_calls = 0, amqp_calls = 0\<rparr>"

definition app_listen :: process_state where
  "app_listen = connectRabbitMQ (initializeDatabase initial_state)"

text \<open>
  What the event loop does next is an event: \<open>Fire\<close>, the oldest pending timer fires
  (all delays are equal, so timers fire in the order of their registration) and its
  callback is called; \<open>Settle k\<close>, the promise awaited by the \<open>k\<close>-th suspended run
  settles and the run goes on. An event that is not possible in a state leaves it
  unchanged. A list of events is one schedule of the process.
\<close>

datatype event = Fire | Settle nat

definition run_callback :: "timer_callback \<Rightarrow> process_state \<Rightarrow> process_state" where
  "run_callback cb s =
     (case cb of
        Cb_initializeDatabase \<Rightarrow> initializeDatabase s
      | Cb_connectRabbitMQ \<Rightarrow> connectRabbitMQ s)"

definition step :: "boot_world \<Rightarrow> event \<Rightarrow> process_state \<Rightarrow> process_state" where
  "step bw ev s =
     (case ev of
        Fire \<Rightarrow>
          (case timers s of
             [] \<Rightarrow> s
           | (cb, ms) # rest \<Rightarrow>
               run_callback cb (s\<lparr>timers := rest, fired := fired s @ [(cb, ms)]\<rparr>))
      | Settle k \<Rightarrow>
          if k < length (suspended s)
          then resume bw (suspended s ! k)
                 (s\<lparr>suspended := take k (suspended s) @ drop (Suc k) (suspended s)\<rparr>)
          else s)"

fun run_events :: "boot_world \<Rightarrow> event list \<Rightarrow> process_state \<Rightarrow> process_state" where
  "run_events bw [] s = s"
| "run_events bw (ev # evs) s = run_events bw evs (step bw ev s)"

text \<open>
  Call \<open>i\<close> of \<^verbatim>\<open>connectRabbitMQ\<close> fails: one of its three steps rejects. What is
  pending of a function: its suspended runs and its registered timers.
\<close>

definition amqp_fails :: "boot_world \<Rightarrow> nat \<Rightarrow> bool" where
  "amqp_fails bw i =
     (amqp_connect bw i \<noteq> None \<or>
      (case createChannel bw i of Inl err \<Rightarrow> True | Inr ch \<Rightarrow> False) \<or>
      assertQueue bw i \<noteq> None)"

fun callback_of :: "run \<Rightarrow> timer_callback" where
  "callback_of (Await_query i) = Cb_initializeDatabase"
| "callback_of (Await_connect i) = Cb_connectRabbitMQ"
| "callback_of (Await_createChannel i) = Cb_connectRabbitMQ"
| "callback_of (Await_assertQueue i ch) = Cb_connectRabbitMQ"

definition pending :: "timer_callback \<Rightarrow> process_state \<Rightarrow> nat" where
  "pending cb s =
     length (filter (\<lambda>r. callback_of r = cb) (suspended s)) +
     length (filter (\<lambda>t. fst t = cb) (timers s))"

text \<open>A suspended run is where it is because the steps before resolved.\<close>

fun run_ok :: "boot_world \<Rightarrow> run \<Rightarrow> bool" where
  "run_ok bw (Await_query i) = True"
| "run_ok bw (Await_connect i) = True"
| "run_ok bw (Await_createChannel i) = (amqp_connect bw i = None)"
| "run_ok bw (Await_assertQueue i ch) = (amqp_connect bw i = None \<and> createChannel bw i = Inr ch)"

text \<open>A run that goes on reaches the end of its function without a rejection.\<close>

fun completes :: "boot_world \<Rightarrow> run \<Rightarrow> bool" where
  "completes bw (Await_query i) = (create_table bw i = None)"
| "completes bw (Await_connect i) = False"
| "completes bw (Await_createChannel i) = False"
| "completes bw (Await_assertQueue i ch) = (assertQueue bw i = None)"

section \<open>Concrete scenarios\<close>

text \<open>
  The library, token, agent and files of the scenarios below: library 1 with path
  \<^verbatim>\<open>/media/movies\<close> on agents tagged \<^verbatim>\<open>scanner-a\<close>, one healthy agent at
  \<^verbatim>\<open>10.0.0.5:50051\<close>, and a scan that finds three files.
\<close>

definition lib_movies :: library where
  "lib_movies = \<lparr>id_lib = 1, name = ''movies'', path_on_agent = ''/media/movies'',
                  agent_tag = ''scanner-a''\<rparr>"

definition user_ann :: user where
  "user_ann = \<lparr>id_user = 7, username = ''ann''\<rparr>"

definition agent_a :: service_entry where
  "agent_a = \<lparr>Service = \<lparr>Address = ''10.0.0.5'', Port = 50051\<rparr>\<rparr>"

definition agent_b :: service_entry where
  "agent_b = \<lparr>Service = \<lparr>Address = ''10.0.0.6'', Port = 50052\<rparr>\<rparr>"

definition file_a :: file_info where
  "file_a = \<lparr>file_path = ''/media/movies/a.mkv'', file_size_bytes = JSStr ''700'',
              last_modified = JSStr ''1700000000''\<rparr>"

definition file_b :: file_info where
  "file_b = \<lparr>file_path = ''/media/movies/b.mkv'', file_size_bytes = JSStr ''800'',
              last_modified = JSStr ''1700000001''\<rparr>"

definition file_c :: file_info where
  "file_c = \<lparr>file_path = ''/media/movies/c.mkv'', file_size_bytes = JSStr ''900'',
              last_modified = JSStr ''1700000002''\<rparr>"

definition invalid_signature :: js_error where
  "invalid_signature = \<lparr>code = JSUndefined, message = JSStr ''invalid signature''\<rparr>"

definition econnrefused :: js_error where
  "econnrefused = \<lparr>code = JSStr ''ECONNREFUSED'', message = JSStr ''connect ECONNREFUSED''\<rparr>"

definition deadline_exceeded :: js_error where
  "deadline_exceeded = \<lparr>code = JSNum 4, message = JSStr ''4 DEADLINE_EXCEEDED: Deadline exceeded''\<rparr>"

definition agent_not_found :: js_error where
  "agent_not_found = \<lparr>code = JSNum 5, message = JSStr ''5 NOT_FOUND''\<rparr>"

text \<open>Everything works: the token \<^verbatim>\<open>good-token\<close> verifies, library 1 exists, Consul
  answers with two agents, the scan finds three files, every publish returns. The host
  runs on UTC.\<close>

definition world_A :: world where
  "world_A =
     \<lparr>jwt_verify = (\<lambda>t. if t = ''good-token'' then Inr user_ann else Inl invalid_signature),
      pool_query = (\<lambda>q ps. if ps = [''1''] then Inr [lib_movies] else Inr []),
      consul_health_service = (\<lambda>t. Inr [agent_a, agent_b]),
      ScanPath = (\<lambda>a p. Inr \<lparr>files_found = Some [file_a, file_b, file_c]\<rparr>),
      sendToQueue = (\<lambda>i m. Inr (even i)),
      now = 1000,
      LocalTZA = (\<lambda>t isUTC. 0)\<rparr>"

text \<open>Consul answers with no passing instance.\<close>

definition world_B :: world where
  "world_B = world_A\<lparr>consul_health_service := (\<lambda>t. Inr [])\<rparr>"

text \<open>The gRPC call ends with \<^verbatim>\<open>DEADLINE_EXCEEDED\<close>.\<close>

definition world_C :: world where
  "world_C = world_A\<lparr>ScanPath := (\<lambda>a p. Inl deadline_exceeded)\<rparr>"

text \<open>The scan response has no \<^verbatim>\<open>files_found\<close>.\<close>

definition world_D :: world where
  "world_D = world_A\<lparr>ScanPath := (\<lambda>a p. Inr \<lparr>files_found = None\<rparr>)\<rparr>"

text \<open>Consul cannot be reached.\<close>

definition world_E :: world where
  "world_E = world_A\<lparr>consul_health_service := (\<lambda>t. Inl econnrefused)\<rparr>"

text \<open>The gRPC call ends with \<^verbatim>\<open>NOT_FOUND\<close>.\<close>

definition world_F :: world where
  "world_F = world_A\<lparr>ScanPath := (\<lambda>a p. Inl agent_not_found)\<rparr>"

text \<open>The database cannot be reached.\<close>

definition world_G :: world where
  "world_G = world_A\<lparr>pool_query := (\<lambda>q ps. Inl econnrefused)\<rparr>"

text \<open>Every publish throws, as on a channel that the broker has closed.\<close>

definition channel_closed :: js_error where
  "channel_closed = \<lparr>code = JSUndefined, message = JSStr ''Channel closed''\<rparr>"

definition world_H :: world where
  "world_H = world_A\<lparr>sendToQueue := (\<lambda>i m. Inl channel_closed)\<rparr>"

text \<open>
  A host on Central European time in the night of 29 October 2023: at 01:00 UTC
  (time value 1698541200000) the offset changes from +2 h to +1 h, so the local times
  from 02:00 to 03:00 occur twice, and ECMAScript reads such a local time with the offset
  before the change. The request arrives at 01:45 UTC, 02:45 local time for the second
  time.
\<close>

definition LocalTZA_CET :: "int \<Rightarrow> bool \<Rightarrow> int" where
  "LocalTZA_CET t isUTC =
     (if isUTC then (if t < 1698541200000 then 7200000 else 3600000)
      else (if t < 1698541200000 + 7200000 then 7200000 else 3600000))"

definition world_DST :: world where
  "world_DST = world_A\<lparr>now := 1698543900000, LocalTZA := LocalTZA_CET\<rparr>"

definition request_1 :: request where
  "request_1 = \<lparr>authorization = Some ''Bearer good-token'', params_id = ''1''\<rparr>"

definition request_9 :: request where
  "request_9 = \<lparr>authorization = Some ''Bearer good-token'', params_id = ''9''\<rparr>"




text \<open>Start-up with PostgreSQL and RabbitMQ up.\<close>

definition boot_up :: boot_world where
  "boot_up = \<lparr>create_table = (\<lambda>i. None),
               amqp_connect = (\<lambda>i. None),
               createChannel = (\<lambda>i. Inr (Channel i)),
               assertQueue = (\<lambda>i. None)\<rparr>"

text \<open>
  Start-up with a broker that accepts the connection and the channel and refuses the
  queue declaration, as RabbitMQ does when \<^verbatim>\<open>metadata_requests\<close> exists with other
  properties (406 PRECONDITION_FAILED).
\<close>

definition precondition_failed :: js_error where
  "precondition_failed = \<lparr>code = JSNum 406, message = JSStr ''PRECONDITION_FAILED''\<rparr>"

definition boot_queue_refused :: boot_world where
  "boot_queue_refused = boot_up\<lparr>assertQueue := (\<lambda>i. Some precondition_failed)\<rparr>"

text \<open>
  The process after \<^verbatim>\<open>amqp.connect\<close> and \<^verbatim>\<open>createChannel\<close> have resolved and
  \<^verbatim>\<open>assertQueue\<close> has been refused, the table query still being under way.
\<close>

definition after_refused_queue :: process_state where
  "after_refused_queue = run_events boot_queue_refused [Settle 1, Settle 1, Settle 1] app_listen"

section \<open>Lemmas about the handler, step by step\<close>


lemma route_authenticated:
  "authenticateToken w req = Inr u \<Longrightarrow> post_libraries_id_scan w ch req = scan_handler w ch req"
  by (simp add: post_libraries_id_scan_def)

lemma scan_try_query_rejects:
  "pool_query w SELECT_LIBRARY [i] = Inl err \<Longrightarrow>
   scan_try w ch i = ([PoolQuery SELECT_LIBRARY [i]], Inl err)"
  by (simp add: scan_try_def)

lemma scan_try_no_row:
  "pool_query w SELECT_LIBRARY [i] = Inr [] \<Longrightarrow>
   scan_try w ch i =
     ([PoolQuery SELECT_LIBRARY [i]],
      Inr \<lparr>status = 404, json = [(''message'', JSStr ''Libreria non trovata'')]\<rparr>)"
  by (simp add: scan_try_def)

lemma scan_try_row:
  "pool_query w SELECT_LIBRARY [i] = Inr (lib # rows) \<Longrightarrow>
   scan_try w ch i =
     (PoolQuery SELECT_LIBRARY [i] # fst (scan_resolve w ch lib), snd (scan_resolve w ch lib))"
  by (simp add: scan_try_def split: prod.splits)

lemma scan_resolve_rejects:
  "consul_health_service w (agent_tag lib) = Inl err \<Longrightarrow>
   scan_resolve w ch lib = ([ConsulHealthService (agent_tag lib) True], Inl err)"
  by (simp add: scan_resolve_def)

lemma scan_resolve_empty:
  "consul_health_service w (agent_tag lib) = Inr [] \<Longrightarrow>
   scan_resolve w ch lib =
     ([ConsulHealthService (agent_tag lib) True],
      Inr \<lparr>status = 404,
           json = [(''message'', JSStr (''Nessun agente 'sano' trovato per '' @ agent_tag lib))]\<rparr>)"
  by (simp add: scan_resolve_def)

lemma scan_resolve_some:
  "consul_health_service w (agent_tag lib) = Inr (s # ss) \<Longrightarrow>
   scan_resolve w ch lib =
     (ConsulHealthService (agent_tag lib) True # fst (scan_rpc w ch lib (s # ss)),
      snd (scan_rpc w ch lib (s # ss)))"
  by (simp add: scan_resolve_def split: prod.splits)

lemma scan_rpc_rejects:
  "ScanPath w (agentAddress (Service s)) (path_on_agent lib) = Inl err \<Longrightarrow>
   scan_rpc w ch lib (s # ss) =
     ([GrpcScanPath (agentAddress (Service s)) (path_on_agent lib) (deadline_of w)], Inl err)"
  by (simp add: scan_rpc_def)

lemma scan_rpc_resolves:
  "ScanPath w (agentAddress (Service s)) (path_on_agent lib) = Inr resp \<Longrightarrow>
   scan_rpc w ch lib (s # ss) =
     (GrpcScanPath (agentAddress (Service s)) (path_on_agent lib) (deadline_of w)
        # fst (scan_publish w ch lib resp),
      snd (scan_publish w ch lib resp))"
  by (simp add: scan_rpc_def split: prod.splits)

lemma scan_publish_no_channel:
  "scan_publish w None lib resp = ([], Inr (scan_ok (filesFound_of resp)))"
  by (simp add: scan_publish_def)

lemma fanout_returns:
  "\<forall>i<length fs. \<exists>flow. sendToQueue w (n + i) (message_of lib (fs ! i)) = Inr flow \<Longrightarrow>
   fanout w lib fs n =
     (map (\<lambda>f. SendToQueue METADATA_QUEUE (message_of lib f) True) fs, Inr (n + length fs))"
proof (induction fs arbitrary: n)
  case Nil
  show ?case by simp
next
  case (Cons f fs)
  from Cons.prems have "\<exists>flow. sendToQueue w (n + 0) (message_of lib ((f # fs) ! 0)) = Inr flow"
    by blast
  then obtain flow where hd: "sendToQueue w n (message_of lib f) = Inr flow"
    by auto
  have "\<forall>i<length fs. \<exists>flow. sendToQueue w (Suc n + i) (message_of lib (fs ! i)) = Inr flow"
  proof (intro allI impI)
    fix i assume "i < length fs"
    then have "Suc i < length (f # fs)" by simp
    with Cons.prems have "\<exists>flow. sendToQueue w (n + Suc i) (message_of lib ((f # fs) ! Suc i)) = Inr flow"
      by blast
    then show "\<exists>flow. sendToQueue w (Suc n + i) (message_of lib (fs ! i)) = Inr flow"
      by simp
  qed
  then have "fanout w lib fs (Suc n) =
     (map (\<lambda>f. SendToQueue METADATA_QUEUE (message_of lib f) True) fs, Inr (Suc n + length fs))"
    by (rule Cons.IH)
  with hd show ?case by simp
qed

lemma scan_publish_channel:
  "\<forall>i<length (filesFound_of resp).
     \<exists>flow. sendToQueue w i (message_of lib (filesFound_of resp ! i)) = Inr flow \<Longrightarrow>
   scan_publish w (Some c) lib resp =
     (map (\<lambda>f. SendToQueue METADATA_QUEUE (message_of lib f) True) (filesFound_of resp),
      Inr (scan_ok (filesFound_of resp)))"
  using fanout_returns [of "filesFound_of resp" w 0 lib]
  by (simp add: scan_publish_def Let_def)

lemma publishes_map_send:
  "publishes (map (\<lambda>f. SendToQueue q (g f) p) fs) = map (\<lambda>f. SendToQueue q (g f) p) fs"
  by (induction fs) (simp_all add: publishes_def)


lemma fanout_only_publishes:
  "filter is_rpc (fst (fanout w lib fs n)) = [] \<and>
   publishes (fst (fanout w lib fs n)) = fst (fanout w lib fs n)"
proof (induction fs arbitrary: n)
  case Nil
  show ?case by (simp add: publishes_def)
next
  case (Cons f fs)
  from Cons.IH [of "n + 1"] show ?case
    by (cases "sendToQueue w n (message_of lib f)")
       (simp_all add: publishes_def Let_def case_prod_beta)
qed

lemma scan_publish_only_publishes:
  "filter is_rpc (fst (scan_publish w ch lib resp)) = []"
  using fanout_only_publishes [of w lib "filesFound_of resp" 0]
  by (auto simp: scan_publish_def Let_def split: option.splits sum.splits prod.splits)

section \<open>Lemmas about the deadline and the token\<close>

lemma rebuild_local_time:
  "MakeDate (Day t) (MakeTime (HourFromTime t) (MinFromTime t + m) (SecFromTime t) (msFromTime t))
     = t + m * 60000"
proof -
  have s: "t div 60000 = (t div 1000) div 60"
    using zdiv_zmult2_eq [of 60 t 1000] by simp
  have h: "t div 3600000 = (t div 60000) div 60"
    using zdiv_zmult2_eq [of 60 t 60000] by simp
  have d: "t div 86400000 = (t div 3600000) div 24"
    using zdiv_zmult2_eq [of 24 t 3600000] by simp
  define r0 where "r0 = t mod 1000"
  define q1 where "q1 = t div 1000"
  define r1 where "r1 = (t div 1000) mod 60"
  define q2 where "q2 = t div 60000"
  define r2 where "r2 = (t div 60000) mod 60"
  define q3 where "q3 = t div 3600000"
  define r3 where "r3 = (t div 3600000) mod 24"
  define q4 where "q4 = t div 86400000"
  have 1: "t = 1000 * q1 + r0"
    unfolding q1_def r0_def by simp
  have 2: "q1 = 60 * q2 + r1"
    unfolding q1_def q2_def r1_def s by simp
  have 3: "q2 = 60 * q3 + r2"
    unfolding q2_def q3_def r2_def h by simp
  have 4: "q3 = 24 * q4 + r3"
    unfolding q3_def q4_def r3_def d by simp
  have "q4 * 86400000 + (r3 * 3600000 + (r2 + m) * 60000 + r1 * 1000 + r0) = t + m * 60000"
    using 1 2 3 4 by (simp add: algebra_simps)
  then show ?thesis
    unfolding MakeDate_def MakeTime_def Day_def HourFromTime_def MinFromTime_def
      SecFromTime_def msFromTime_def r0_def r1_def r2_def r3_def q4_def .
qed

lemma deadline_of_local:
  "deadline_of w =
     now w + LocalTZA w (now w) True + 600000
       - LocalTZA w (now w + LocalTZA w (now w) True + 600000) False"
  by (simp add: deadline_of_def setMinutes_def getMinutes_def Let_def rebuild_local_time
      LocalTime_def UTC_of_def)

lemma deadline_of_fixed_offset:
  "LocalTZA w (now w + LocalTZA w (now w) True + 600000) False = LocalTZA w (now w) True \<Longrightarrow>
   deadline_of w = now w + 10 * 60 * 1000"
  by (simp add: deadline_of_local)







section \<open>Lemmas about start-up\<close>

lemma remove_nth_count:
  "k < length xs \<Longrightarrow>
   length (filter P (take k xs @ drop (Suc k) xs)) + (if P (xs ! k) then 1 else 0) =
   length (filter P xs)"
proof -
  assume "k < length xs"
  then have "xs = take k xs @ xs ! k # drop (Suc k) xs"
    by (rule id_take_nth_drop)
  then have "length (filter P xs) = length (filter P (take k xs @ xs ! k # drop (Suc k) xs))"
    by simp
  then show ?thesis by simp
qed

lemma remove_nth_subset: "set (take k xs @ drop (Suc k) xs) \<subseteq> set xs"
  using set_take_subset [of k xs] set_drop_subset [of "Suc k" xs] by auto

text \<open>Firing a timer turns it into a suspended run of the same function.\<close>

lemma step_Fire_pending: "pending cb (step bw Fire s) = pending cb s"
proof (cases "timers s")
  case Nil
  then show ?thesis by (simp add: step_def)
next
  case (Cons t rest)
  obtain c ms where "t = (c, ms)" by (cases t)
  with Cons show ?thesis
    by (cases c)
       (auto simp: step_def run_callback_def initializeDatabase_def connectRabbitMQ_def pending_def)
qed

lemma step_Fire_run_ok:
  "\<forall>r \<in> set (suspended s). run_ok bw r \<Longrightarrow> \<forall>r \<in> set (suspended (step bw Fire s)). run_ok bw r"
proof (cases "timers s")
  case Nil
  assume "\<forall>r \<in> set (suspended s). run_ok bw r"
  with Nil show ?thesis by (simp add: step_def)
next
  case (Cons t rest)
  obtain c ms where "t = (c, ms)" by (cases t)
  moreover assume "\<forall>r \<in> set (suspended s). run_ok bw r"
  ultimately show ?thesis using Cons
    by (cases c)
       (auto simp: step_def run_callback_def initializeDatabase_def connectRabbitMQ_def)
qed

text \<open>A run that goes on stays pending unless it reaches its end without a rejection.\<close>

lemma resume_pending:
  "pending cb (resume bw r s) =
   pending cb s + (if callback_of r = cb \<and> \<not> completes bw r then 1 else 0)"
  by (cases r; cases cb)
     (auto simp: resume_def pending_def setTimeout_def split: option.splits sum.splits)

lemma resume_run_ok:
  "run_ok bw r \<Longrightarrow> \<forall>r' \<in> set (suspended s). run_ok bw r' \<Longrightarrow>
   \<forall>r' \<in> set (suspended (resume bw r s)). run_ok bw r'"
  by (cases r) (auto simp: resume_def setTimeout_def split: option.splits sum.splits)

lemma step_Settle_pending:
  assumes "k < length (suspended s)"
  shows "pending cb (step bw (Settle k) s) +
           (if callback_of (suspended s ! k) = cb \<and> completes bw (suspended s ! k) then 1 else 0) =
         pending cb s"
proof -
  let ?s' = "s\<lparr>suspended := take k (suspended s) @ drop (Suc k) (suspended s)\<rparr>"
  have "pending cb ?s' + (if callback_of (suspended s ! k) = cb then 1 else 0) = pending cb s"
    using remove_nth_count [OF assms, of "\<lambda>r. callback_of r = cb"]
    by (simp add: pending_def)
  moreover have "step bw (Settle k) s = resume bw (suspended s ! k) ?s'"
    using assms by (simp add: step_def)
  ultimately show ?thesis
    by (auto simp: resume_pending split: if_splits)
qed

lemma step_Settle_run_ok:
  assumes "\<forall>r \<in> set (suspended s). run_ok bw r"
  shows "\<forall>r \<in> set (suspended (step bw (Settle k) s)). run_ok bw r"
proof (cases "k < length (suspended s)")
  case False
  with assms show ?thesis by (simp add: step_def)
next
  case True
  let ?s' = "s\<lparr>suspended := take k (suspended s) @ drop (Suc k) (suspended s)\<rparr>"
  from True assms have "run_ok bw (suspended s ! k)" by simp
  moreover from assms remove_nth_subset [of k "suspended s"]
  have "\<forall>r \<in> set (suspended ?s'). run_ok bw r" by auto
  ultimately have "\<forall>r \<in> set (suspended (resume bw (suspended s ! k) ?s')). run_ok bw r"
    by (rule resume_run_ok)
  with True show ?thesis by (simp add: step_def)
qed

lemma step_run_ok:
  "\<forall>r \<in> set (suspended s). run_ok bw r \<Longrightarrow> \<forall>r \<in> set (suspended (step bw ev s)). run_ok bw r"
  by (cases ev) (simp_all add: step_Fire_run_ok step_Settle_run_ok)

lemma failing_run_never_completes:
  assumes "\<forall>i. amqp_fails bw i"
    and "run_ok bw r"
    and "callback_of r = Cb_connectRabbitMQ"
  shows "\<not> completes bw r"
proof (cases r)
  case (Await_assertQueue i ch)
  from assms(1) have "amqp_fails bw i" by simp
  with assms(2) Await_assertQueue show ?thesis
    by (auto simp: amqp_fails_def)
next
  case (Await_query i)
  with assms(3) show ?thesis by simp
qed simp_all

lemma step_pending_amqp:
  assumes "\<forall>i. amqp_fails bw i"
    and "\<forall>r \<in> set (suspended s). run_ok bw r"
  shows "pending Cb_connectRabbitMQ (step bw ev s) = pending Cb_connectRabbitMQ s"
proof (cases ev)
  case Fire
  then show ?thesis by (simp add: step_Fire_pending)
next
  case (Settle k)
  show ?thesis
  proof (cases "k < length (suspended s)")
    case False
    with Settle show ?thesis by (simp add: step_def)
  next
    case True
    let ?r = "suspended s ! k"
    from True assms(2) have ok: "run_ok bw ?r" by simp
    have "callback_of ?r = Cb_connectRabbitMQ \<Longrightarrow> \<not> completes bw ?r"
      using assms(1) ok by (rule failing_run_never_completes)
    with step_Settle_pending [OF True, of Cb_connectRabbitMQ bw] Settle show ?thesis
      by (auto split: if_splits)
  qed
qed

lemma step_pending_db:
  assumes "\<forall>i. create_table bw i \<noteq> None"
  shows "pending Cb_initializeDatabase (step bw ev s) = pending Cb_initializeDatabase s"
proof (cases ev)
  case Fire
  then show ?thesis by (simp add: step_Fire_pending)
next
  case (Settle k)
  show ?thesis
  proof (cases "k < length (suspended s)")
    case False
    with Settle show ?thesis by (simp add: step_def)
  next
    case True
    let ?r = "suspended s ! k"
    have "callback_of ?r = Cb_initializeDatabase \<Longrightarrow> \<not> completes bw ?r"
      using assms by (cases ?r) auto
    with step_Settle_pending [OF True, of Cb_initializeDatabase bw] Settle show ?thesis
      by (auto split: if_splits)
  qed
qed

lemma run_events_pending_amqp:
  "\<forall>i. amqp_fails bw i \<Longrightarrow> \<forall>r \<in> set (suspended s). run_ok bw r \<Longrightarrow>
   pending Cb_connectRabbitMQ (run_events bw evs s) = pending Cb_connectRabbitMQ s"
proof (induction evs arbitrary: s)
  case Nil
  show ?case by simp
next
  case (Cons ev evs)
  from Cons.prems have "\<forall>r \<in> set (suspended (step bw ev s)). run_ok bw r"
    by (simp add: step_run_ok)
  with Cons.prems(1) have
    "pending Cb_connectRabbitMQ (run_events bw evs (step bw ev s)) =
     pending Cb_connectRabbitMQ (step bw ev s)"
    by (rule Cons.IH)
  with Cons.prems show ?case by (simp add: step_pending_amqp)
qed

lemma run_events_pending_db:
  "\<forall>i. create_table bw i \<noteq> None \<Longrightarrow>
   pending Cb_initializeDatabase (run_events bw evs s) = pending Cb_initializeDatabase s"
  by (induction evs arbitrary: s) (simp_all add: step_pending_db)

lemma app_listen_pending:
  "pending Cb_connectRabbitMQ app_listen = 1 \<and> pending Cb_initializeDatabase app_listen = 1 \<and>
   (\<forall>r \<in> set (suspended app_listen). run_ok bw r)"
  by (simp add: app_listen_def initial_state_def initializeDatabase_def connectRabbitMQ_def
      pending_def)

text \<open>Every delay is 5000.\<close>

lemma step_flat:
  assumes "\<forall>t \<in> set (timers s) \<union> set (fired s). snd t = 5000"
  shows "\<forall>t \<in> set (timers (step bw ev s)) \<union> set (fired (step bw ev s)). snd t = 5000"
proof (cases ev)
  case Fire
  show ?thesis
  proof (cases "timers s")
    case Nil
    with assms Fire show ?thesis by (simp add: step_def)
  next
    case (Cons t rest)
    obtain c ms where "t = (c, ms)" by (cases t)
    with assms Fire Cons show ?thesis
      by (cases c)
         (auto simp: step_def run_callback_def initializeDatabase_def connectRabbitMQ_def)
  qed
next
  case (Settle k)
  show ?thesis
  proof (cases "k < length (suspended s)")
    case False
    with assms Settle show ?thesis by (simp add: step_def)
  next
    case True
    with assms Settle show ?thesis
      by (cases "suspended s ! k")
         (auto simp: step_def resume_def setTimeout_def split: option.splits sum.splits)
  qed
qed

lemma run_events_flat:
  "\<forall>t \<in> set (timers s) \<union> set (fired s). snd t = 5000 \<Longrightarrow>
   \<forall>t \<in> set (timers (run_events bw evs s)) \<union> set (fired (run_events bw evs s)). snd t = 5000"
proof (induction evs arbitrary: s)
  case Nil
  then show ?case by simp
next
  case (Cons ev evs)
  from Cons.prems have
    "\<forall>t \<in> set (timers (step bw ev s)) \<union> set (fired (step bw ev s)). snd t = 5000"
    by (rule step_flat)
  then show ?case using Cons.IH by simp
qed

section \<open>Facts about the concrete scenarios\<close>

lemma good_token_accepted:
  "jwt_verify w = jwt_verify world_A \<Longrightarrow> authenticateToken w request_1 = Inr user_ann"
  "jwt_verify w = jwt_verify world_A \<Longrightarrow> authenticateToken w request_9 = Inr user_ann"
  by (simp_all add: authenticateToken_def token_of_def world_A_def request_1_def request_9_def)

lemma library_1_found:
  "pool_query w = pool_query world_A \<Longrightarrow>
   pool_query w SELECT_LIBRARY [params_id request_1] = Inr [lib_movies]"
  by (simp add: world_A_def request_1_def)

lemma agent_a_address: "agentAddress (Service agent_a) = ''10.0.0.5:50051''"
  by (simp add: agentAddress_def agent_a_def string_of_nat.simps)

section \<open>The properties of the scan orchestration\<close>

text \<open>
  C1 (as stated, refuted). With \<^verbatim>\<open>rabbitChannel\<close> unset the handler does not enter the
  loop: the scan finds three files, the answer is 200 with \<^verbatim>\<open>files_found_count\<close> 3, and
  nothing is published.
\<close>

theorem fanout_skipped_without_channel:
  "ScanPath world_A (agentAddress (Service agent_a)) (path_on_agent lib_movies) =
     Inr \<lparr>files_found = Some [file_a, file_b, file_c]\<rparr> \<and>
   fst (post_libraries_id_scan world_A None request_1) =
     \<lparr>status = 200,
      json = [(''message'', JSStr ''Scan completed and messages sent for processing.''),
              (''files_found_count'', JSNum 3)]\<rparr> \<and>
   length (publishes (snd (post_libraries_id_scan world_A None request_1))) = 0"
proof -
  have a: "authenticateToken world_A request_1 = Inr user_ann"
    by (simp add: good_token_accepted)
  have b: "pool_query world_A SELECT_LIBRARY [params_id request_1] = Inr [lib_movies]"
    by (simp add: library_1_found)
  have c: "consul_health_service world_A (agent_tag lib_movies) = Inr [agent_a, agent_b]"
    by (simp add: world_A_def)
  have d: "ScanPath world_A (agentAddress (Service agent_a)) (path_on_agent lib_movies) =
             Inr \<lparr>files_found = Some [file_a, file_b, file_c]\<rparr>"
    by (simp add: world_A_def)
  from a b c d show ?thesis
    by (simp add: route_authenticated scan_handler_def scan_try_row scan_resolve_some
        scan_rpc_resolves scan_publish_no_channel scan_ok_def filesFound_of_def publishes_def)
qed

text \<open>
  C1 (amended). When the gRPC call resolves with the files \<open>fs\<close> and no call of
  \<^verbatim>\<open>sendToQueue\<close> throws, the answer is 200 with \<^verbatim>\<open>files_found_count\<close> equal to
  the number of files. With a channel set, exactly one persistent message per file is
  published to \<^verbatim>\<open>metadata_requests\<close>, in the order of the files and whatever each
  \<^verbatim>\<open>sendToQueue\<close> returns; with no channel set, nothing is published.
\<close>

theorem fanout_one_message_per_file:
  assumes "authenticateToken w req = Inr u"
    and "pool_query w SELECT_LIBRARY [params_id req] = Inr (lib # rows)"
    and "consul_health_service w (agent_tag lib) = Inr (s # ss)"
    and "ScanPath w (agentAddress (Service s)) (path_on_agent lib) = Inr resp"
    and "filesFound_of resp = fs"
    and "ch \<noteq> None \<longrightarrow>
           (\<forall>i<length fs. \<exists>flow. sendToQueue w i (message_of lib (fs ! i)) = Inr flow)"
  shows "fst (post_libraries_id_scan w ch req) =
           \<lparr>status = 200,
            json = [(''message'', JSStr ''Scan completed and messages sent for processing.''),
                    (''files_found_count'', JSNum (int (length fs)))]\<rparr> \<and>
         publishes (snd (post_libraries_id_scan w ch req)) =
           (if ch = None then []
            else map (\<lambda>f. SendToQueue METADATA_QUEUE (message_of lib f) True) fs)"
proof (cases ch)
  case None
  with assms show ?thesis
    by (simp add: route_authenticated scan_handler_def scan_try_row scan_resolve_some
        scan_rpc_resolves scan_publish_no_channel scan_ok_def publishes_def)
next
  case (Some c)
  with assms(5,6) have
    "scan_publish w ch lib resp =
       (map (\<lambda>f. SendToQueue METADATA_QUEUE (message_of lib f) True) fs, Inr (scan_ok fs))"
    using scan_publish_channel [of resp w lib c] by simp
  with assms Some show ?thesis
    using publishes_map_send [of METADATA_QUEUE "message_of lib" True fs]
    by (simp add: route_authenticated scan_handler_def scan_try_row scan_resolve_some
        scan_rpc_resolves scan_ok_def publishes_def)
qed

theorem fanout_one_message_per_file_witness:
  "fst (post_libraries_id_scan world_A (Some (Channel 1)) request_1) =
     \<lparr>status = 200,
      json = [(''message'', JSStr ''Scan completed and messages sent for processing.''),
              (''files_found_count'', JSNum 3)]\<rparr> \<and>
   publishes (snd (post_libraries_id_scan world_A (Some (Channel 1)) request_1)) =
     [SendToQueue ''metadata_requests'' (message_of lib_movies file_a) True,
      SendToQueue ''metadata_requests'' (message_of lib_movies file_b) True,
      SendToQueue ''metadata_requests'' (message_of lib_movies file_c) True] \<and>
   publishes (snd (post_libraries_id_scan world_A None request_1)) = []"
proof -
  have a: "authenticateToken world_A request_1 = Inr user_ann"
    by (simp add: good_token_accepted)
  have b: "pool_query world_A SELECT_LIBRARY [params_id request_1] = Inr (lib_movies # [])"
    by (simp add: library_1_found)
  have c: "consul_health_service world_A (agent_tag lib_movies) = Inr (agent_a # [agent_b])"
    by (simp add: world_A_def)
  have d: "ScanPath world_A (agentAddress (Service agent_a)) (path_on_agent lib_movies) =
             Inr \<lparr>files_found = Some [file_a, file_b, file_c]\<rparr>"
    by (simp add: world_A_def)
  have e: "filesFound_of \<lparr>files_found = Some [file_a, file_b, file_c]\<rparr> = [file_a, file_b, file_c]"
    by (simp add: filesFound_of_def)
  have f: "Some (Channel 1) \<noteq> None \<longrightarrow>
             (\<forall>i<length [file_a, file_b, file_c].
                \<exists>flow. sendToQueue world_A i (message_of lib_movies ([file_a, file_b, file_c] ! i)) =
                         Inr flow)"
    by (simp add: world_A_def)
  have g: "(None :: channel option) \<noteq> None \<longrightarrow>
             (\<forall>i<length [file_a, file_b, file_c].
                \<exists>flow. sendToQueue world_A i (message_of lib_movies ([file_a, file_b, file_c] ! i)) =
                         Inr flow)"
    by simp
  from fanout_one_message_per_file [OF a b c d e f] fanout_one_message_per_file [OF a b c d e g]
  show ?thesis by (simp add: METADATA_QUEUE_def)
qed

text \<open>
  C2 (as stated, refuted). Consul answers with no passing instance for library 1: the
  answer is 404, not 503.
\<close>

theorem no_healthy_agent_status:
  "consul_health_service world_B (agent_tag lib_movies) = Inr [] \<and>
   status (fst (post_libraries_id_scan world_B None request_1)) = 404 \<and>
   status (fst (post_libraries_id_scan world_B None request_1)) \<noteq> 503"
proof -
  have a: "authenticateToken world_B request_1 = Inr user_ann"
    by (simp add: good_token_accepted world_B_def)
  have b: "pool_query world_B SELECT_LIBRARY [params_id request_1] = Inr [lib_movies]"
    by (simp add: library_1_found world_B_def)
  have c: "consul_health_service world_B (agent_tag lib_movies) = Inr []"
    by (simp add: world_B_def)
  from a b c show ?thesis
    by (simp add: route_authenticated scan_handler_def scan_try_row scan_resolve_empty)
qed

text \<open>
  C2 (amended). When Consul answers with no passing instance for the library's
  \<^verbatim>\<open>agent_tag\<close>, the answer is 404 with a message naming the tag, and the only external
  calls are the library query and the Consul query: no gRPC call is made.
\<close>

theorem no_healthy_agent_not_found:
  assumes "authenticateToken w req = Inr u"
    and "pool_query w SELECT_LIBRARY [params_id req] = Inr (lib # rows)"
    and "consul_health_service w (agent_tag lib) = Inr []"
  shows "post_libraries_id_scan w ch req =
           (\<lparr>status = 404,
             json = [(''message'', JSStr (''Nessun agente 'sano' trovato per '' @ agent_tag lib))]\<rparr>,
            [PoolQuery SELECT_LIBRARY [params_id req], ConsulHealthService (agent_tag lib) True])"
  using assms
  by (simp add: route_authenticated scan_handler_def scan_try_row scan_resolve_empty)

theorem no_healthy_agent_not_found_witness:
  "post_libraries_id_scan world_B (Some (Channel 1)) request_1 =
     (\<lparr>status = 404,
       json = [(''message'', JSStr ''Nessun agente 'sano' trovato per scanner-a'')]\<rparr>,
      [PoolQuery ''SELECT * FROM libraries WHERE id = $1'' [''1''],
       ConsulHealthService ''scanner-a'' True])"
proof -
  have a: "authenticateToken world_B request_1 = Inr user_ann"
    by (simp add: good_token_accepted world_B_def)
  have b: "pool_query world_B SELECT_LIBRARY [params_id request_1] = Inr (lib_movies # [])"
    by (simp add: library_1_found world_B_def)
  have c: "consul_health_service world_B (agent_tag lib_movies) = Inr []"
    by (simp add: world_B_def)
  from no_healthy_agent_not_found [OF a b c, of "Some (Channel 1)"]
  show ?thesis by (simp add: SELECT_LIBRARY_def request_1_def lib_movies_def)
qed

text \<open>
  C3. When the gRPC call fails with status \<^verbatim>\<open>DEADLINE_EXCEEDED\<close>, the answer is 504
  and no message is published.
\<close>

theorem deadline_exceeded_gateway_timeout:
  assumes "authenticateToken w req = Inr u"
    and "pool_query w SELECT_LIBRARY [params_id req] = Inr (lib # rows)"
    and "consul_health_service w (agent_tag lib) = Inr (s # ss)"
    and "ScanPath w (agentAddress (Service s)) (path_on_agent lib) = Inl err"
    and "code err = JSNum grpc_status_DEADLINE_EXCEEDED"
  shows "fst (post_libraries_id_scan w ch req) =
           \<lparr>status = 504, json = [(''message'', JSStr ''Timeout: the scan is taking too long.'')]\<rparr> \<and>
         publishes (snd (post_libraries_id_scan w ch req)) = []"
  using assms
  by (simp add: route_authenticated scan_handler_def scan_try_row scan_resolve_some
      scan_rpc_rejects scan_catch_def publishes_def)

theorem deadline_exceeded_gateway_timeout_witness:
  "status (fst (post_libraries_id_scan world_C (Some (Channel 1)) request_1)) = 504 \<and>
   publishes (snd (post_libraries_id_scan world_C (Some (Channel 1)) request_1)) = []"
proof -
  have a: "authenticateToken world_C request_1 = Inr user_ann"
    by (simp add: good_token_accepted world_C_def)
  have b: "pool_query world_C SELECT_LIBRARY [params_id request_1] = Inr (lib_movies # [])"
    by (simp add: library_1_found world_C_def)
  have c: "consul_health_service world_C (agent_tag lib_movies) = Inr (agent_a # [agent_b])"
    by (simp add: world_C_def world_A_def)
  have d: "ScanPath world_C (agentAddress (Service agent_a)) (path_on_agent lib_movies) =
             Inl deadline_exceeded"
    by (simp add: world_C_def)
  have e: "code deadline_exceeded = JSNum grpc_status_DEADLINE_EXCEEDED"
    by (simp add: deadline_exceeded_def grpc_status_DEADLINE_EXCEEDED_def)
  from deadline_exceeded_gateway_timeout [OF a b c d e, of "Some (Channel 1)"]
  show ?thesis by simp
qed

text \<open>
  C4. When the query for the library returns no row, the answer is 404 and the query is
  the only external call: Consul is not asked, no gRPC call is made, nothing is published.
\<close>

theorem unknown_library_not_found:
  assumes "authenticateToken w req = Inr u"
    and "pool_query w SELECT_LIBRARY [params_id req] = Inr []"
  shows "post_libraries_id_scan w ch req =
           (\<lparr>status = 404, json = [(''message'', JSStr ''Libreria non trovata'')]\<rparr>,
            [PoolQuery SELECT_LIBRARY [params_id req]])"
  using assms by (simp add: route_authenticated scan_handler_def scan_try_no_row)

theorem unknown_library_not_found_witness:
  "post_libraries_id_scan world_A (Some (Channel 1)) request_9 =
     (\<lparr>status = 404, json = [(''message'', JSStr ''Libreria non trovata'')]\<rparr>,
      [PoolQuery ''SELECT * FROM libraries WHERE id = $1'' [''9'']])"
proof -
  have a: "authenticateToken world_A request_9 = Inr user_ann"
    by (simp add: good_token_accepted)
  have b: "pool_query world_A SELECT_LIBRARY [params_id request_9] = Inr []"
    by (simp add: world_A_def request_9_def)
  from unknown_library_not_found [OF a b, of "Some (Channel 1)"]
  show ?thesis by (simp add: SELECT_LIBRARY_def request_9_def)
qed

text \<open>
  C5 (as stated, refuted). Consul cannot be reached (the query rejects with a socket
  error, whose \<^verbatim>\<open>code\<close> is the string \<^verbatim>\<open>ECONNREFUSED\<close>): the answer is 500, not 503.
\<close>

theorem registry_failure_status:
  "consul_health_service world_E (agent_tag lib_movies) = Inl econnrefused \<and>
   status (fst (post_libraries_id_scan world_E None request_1)) = 500 \<and>
   status (fst (post_libraries_id_scan world_E None request_1)) \<noteq> 503"
proof -
  have a: "authenticateToken world_E request_1 = Inr user_ann"
    by (simp add: good_token_accepted world_E_def)
  have b: "pool_query world_E SELECT_LIBRARY [params_id request_1] = Inr [lib_movies]"
    by (simp add: library_1_found world_E_def)
  have c: "consul_health_service world_E (agent_tag lib_movies) = Inl econnrefused"
    by (simp add: world_E_def)
  from a b c show ?thesis
    by (simp add: route_authenticated scan_handler_def scan_try_row scan_resolve_rejects
        scan_catch_def econnrefused_def)
qed

text \<open>
  C5 (amended). When the Consul query rejects with an error whose \<^verbatim>\<open>code\<close> is none of
  the gRPC codes \<^verbatim>\<open>DEADLINE_EXCEEDED\<close>, \<^verbatim>\<open>UNAVAILABLE\<close>, \<^verbatim>\<open>NOT_FOUND\<close>, the answer
  is 500 with the error's message, after the library query and the Consul query and
  nothing else. The status differs from the one answered when Consul resolves with no
  passing instance.
\<close>

theorem registry_failure_internal_error:
  assumes "authenticateToken w req = Inr u"
    and "pool_query w SELECT_LIBRARY [params_id req] = Inr (lib # rows)"
    and "consul_health_service w (agent_tag lib) = Inl err"
    and "code err \<noteq> JSNum grpc_status_DEADLINE_EXCEEDED"
    and "code err \<noteq> JSNum grpc_status_UNAVAILABLE"
    and "code err \<noteq> JSNum grpc_status_NOT_FOUND"
  shows "post_libraries_id_scan w ch req =
           (\<lparr>status = 500,
             json = [(''message'', JSStr ''Internal server error''), (''error'', message err)]\<rparr>,
            [PoolQuery SELECT_LIBRARY [params_id req], ConsulHealthService (agent_tag lib) True]) \<and>
         (\<forall>w' u' rows'.
            authenticateToken w' req = Inr u' \<and>
            pool_query w' SELECT_LIBRARY [params_id req] = Inr (lib # rows') \<and>
            consul_health_service w' (agent_tag lib) = Inr [] \<longrightarrow>
            status (fst (post_libraries_id_scan w' ch req)) \<noteq>
            status (fst (post_libraries_id_scan w ch req)))"
  using assms
  by (simp add: route_authenticated scan_handler_def scan_try_row scan_resolve_rejects
      scan_resolve_empty scan_catch_def)

theorem registry_failure_internal_error_witness:
  "post_libraries_id_scan world_E (Some (Channel 1)) request_1 =
     (\<lparr>status = 500,
       json = [(''message'', JSStr ''Internal server error''),
               (''error'', JSStr ''connect ECONNREFUSED'')]\<rparr>,
      [PoolQuery ''SELECT * FROM libraries WHERE id = $1'' [''1''],
       ConsulHealthService ''scanner-a'' True]) \<and>
   status (fst (post_libraries_id_scan world_B (Some (Channel 1)) request_1)) \<noteq>
   status (fst (post_libraries_id_scan world_E (Some (Channel 1)) request_1))"
proof -
  have a: "authenticateToken world_E request_1 = Inr user_ann"
    by (simp add: good_token_accepted world_E_def)
  have b: "pool_query world_E SELECT_LIBRARY [params_id request_1] = Inr (lib_movies # [])"
    by (simp add: library_1_found world_E_def)
  have c: "consul_health_service world_E (agent_tag lib_movies) = Inl econnrefused"
    by (simp add: world_E_def)
  have d: "code econnrefused \<noteq> JSNum grpc_status_DEADLINE_EXCEEDED"
    "code econnrefused \<noteq> JSNum grpc_status_UNAVAILABLE"
    "code econnrefused \<noteq> JSNum grpc_status_NOT_FOUND"
    by (simp_all add: econnrefused_def)
  have a': "authenticateToken world_B request_1 = Inr user_ann"
    by (simp add: good_token_accepted world_B_def)
  have b': "pool_query world_B SELECT_LIBRARY [params_id request_1] = Inr (lib_movies # [])"
    by (simp add: library_1_found world_B_def)
  have c': "consul_health_service world_B (agent_tag lib_movies) = Inr []"
    by (simp add: world_B_def)
  from registry_failure_internal_error [OF a b c d, of "Some (Channel 1)"] a' b' c'
  show ?thesis
    by (auto simp: SELECT_LIBRARY_def request_1_def lib_movies_def econnrefused_def)
qed




text \<open>
  When Consul answers with at least one instance, the handler calls \<^verbatim>\<open>ScanPath\<close>
  exactly once: on the first instance of the answer, at \<^verbatim>\<open>Address:Port\<close>, with the
  library's \<^verbatim>\<open>path_on_agent\<close> and the deadline that \<^verbatim>\<open>setMinutes\<close> computes. The call
  follows the library query and the Consul query. Where the offset of local time is the
  same before and after the ten minutes, the deadline is ten minutes after now.
\<close>

lemma scan_rpc_on_first_endpoint:
  assumes "authenticateToken w req = Inr u"
    and "pool_query w SELECT_LIBRARY [params_id req] = Inr (lib # rows)"
    and "consul_health_service w (agent_tag lib) = Inr (s # ss)"
  shows "take 3 (snd (post_libraries_id_scan w ch req)) =
           [PoolQuery SELECT_LIBRARY [params_id req],
            ConsulHealthService (agent_tag lib) True,
            GrpcScanPath (Address (Service s) @ '':'' @ string_of_nat (Port (Service s)))
              (path_on_agent lib) (deadline_of w)] \<and>
         length (filter is_rpc (snd (post_libraries_id_scan w ch req))) = 1"
proof (cases "ScanPath w (agentAddress (Service s)) (path_on_agent lib)")
  case (Inl err)
  with assms show ?thesis
    by (simp add: route_authenticated scan_handler_def scan_try_row scan_resolve_some
        scan_rpc_rejects agentAddress_def)
next
  case (Inr resp)
  with assms show ?thesis
    by (simp add: route_authenticated scan_handler_def scan_try_row scan_resolve_some
        scan_rpc_resolves scan_publish_only_publishes agentAddress_def
        split: prod.splits sum.splits)
qed

text \<open>
  C7 (the code departs from the claim). The first instance, the address and the path are
  as the claim says, but the deadline is computed on local wall-clock time. On a host
  with Central European time, for a request at 01:45 UTC on 29 October 2023 (02:45 local
  time, after the clocks went back), \<^verbatim>\<open>setMinutes\<close> yields 02:55 local time read with
  the offset before the change: the deadline handed to \<^verbatim>\<open>ScanPath\<close> is 00:55 UTC,
  fifty minutes before the request, not ten minutes after it.
\<close>

theorem deadline_before_now_after_clock_change:
  "now world_DST = 1698543900000 \<and>
   deadline_of world_DST = now world_DST - 50 * 60 * 1000 \<and>
   take 3 (snd (post_libraries_id_scan world_DST None request_1)) =
     [PoolQuery ''SELECT * FROM libraries WHERE id = $1'' [''1''],
      ConsulHealthService ''scanner-a'' True,
      GrpcScanPath ''10.0.0.5:50051'' ''/media/movies'' 1698540900000]"
proof -
  have a: "authenticateToken world_DST request_1 = Inr user_ann"
    by (simp add: good_token_accepted world_DST_def)
  have b: "pool_query world_DST SELECT_LIBRARY [params_id request_1] = Inr (lib_movies # [])"
    by (simp add: library_1_found world_DST_def)
  have c: "consul_health_service world_DST (agent_tag lib_movies) = Inr (agent_a # [agent_b])"
    by (simp add: world_DST_def world_A_def)
  have d: "Address (Service agent_a) @ '':'' @ string_of_nat (Port (Service agent_a)) =
             ''10.0.0.5:50051''"
    using agent_a_address by (simp add: agentAddress_def)
  have e: "now world_DST = 1698543900000"
    by (simp add: world_DST_def)
  have f: "deadline_of world_DST = 1698540900000"
    by (simp add: deadline_of_local world_DST_def LocalTZA_CET_def)
  from scan_rpc_on_first_endpoint [OF a b c, of None] d e f
  show ?thesis
    by (simp add: SELECT_LIBRARY_def request_1_def lib_movies_def)
qed

text \<open>
  C9. When the gRPC call resolves with a response that has no \<^verbatim>\<open>files_found\<close>, the
  answer is 200 with \<^verbatim>\<open>files_found_count\<close> 0 and nothing is published, with or without
  a channel.
\<close>

theorem missing_files_found_is_empty:
  assumes "authenticateToken w req = Inr u"
    and "pool_query w SELECT_LIBRARY [params_id req] = Inr (lib # rows)"
    and "consul_health_service w (agent_tag lib) = Inr (s # ss)"
    and "ScanPath w (agentAddress (Service s)) (path_on_agent lib) = Inr resp"
    and "files_found resp = None"
  shows "fst (post_libraries_id_scan w ch req) =
           \<lparr>status = 200,
            json = [(''message'', JSStr ''Scan completed and messages sent for processing.''),
                    (''files_found_count'', JSNum 0)]\<rparr> \<and>
         publishes (snd (post_libraries_id_scan w ch req)) = []"
proof -
  from assms(5) have ff: "filesFound_of resp = []"
    by (simp add: filesFound_of_def)
  then have "scan_publish w ch lib resp = ([], Inr (scan_ok []))"
    by (cases ch) (simp_all add: scan_publish_def)
  with assms show ?thesis
    by (simp add: route_authenticated scan_handler_def scan_try_row scan_resolve_some
        scan_rpc_resolves scan_ok_def publishes_def)
qed

theorem missing_files_found_is_empty_witness:
  "fst (post_libraries_id_scan world_D (Some (Channel 1)) request_1) =
     \<lparr>status = 200,
      json = [(''message'', JSStr ''Scan completed and messages sent for processing.''),
              (''files_found_count'', JSNum 0)]\<rparr> \<and>
   publishes (snd (post_libraries_id_scan world_D (Some (Channel 1)) request_1)) = []"
proof -
  have a: "authenticateToken world_D request_1 = Inr user_ann"
    by (simp add: good_token_accepted world_D_def)
  have b: "pool_query world_D SELECT_LIBRARY [params_id request_1] = Inr (lib_movies # [])"
    by (simp add: library_1_found world_D_def)
  have c: "consul_health_service world_D (agent_tag lib_movies) = Inr (agent_a # [agent_b])"
    by (simp add: world_D_def world_A_def)
  have d: "ScanPath world_D (agentAddress (Service agent_a)) (path_on_agent lib_movies) =
             Inr \<lparr>files_found = None\<rparr>"
    by (simp add: world_D_def)
  have e: "files_found \<lparr>files_found = None\<rparr> = None"
    by simp
  from missing_files_found_is_empty [OF a b c d e, of "Some (Channel 1)"]
  show ?thesis by simp
qed

text \<open>
  C10. After authentication: a gRPC call that fails with status \<^verbatim>\<open>NOT_FOUND\<close> is
  answered 503, as one that fails with \<^verbatim>\<open>UNAVAILABLE\<close> is; every error that reaches the
  \<^verbatim>\<open>catch\<close> block with a \<^verbatim>\<open>code\<close> other than \<^verbatim>\<open>DEADLINE_EXCEEDED\<close>,
  \<^verbatim>\<open>UNAVAILABLE\<close> and \<^verbatim>\<open>NOT_FOUND\<close> is answered 500 with the error's message in the
  property \<^verbatim>\<open>error\<close>; a rejected library query and a rejected Consul query reach the
  \<^verbatim>\<open>catch\<close> block with their error.
\<close>

theorem catch_block_mapping:
  assumes "authenticateToken w req = Inr u"
  shows "(\<forall>lib rows s ss err.
            pool_query w SELECT_LIBRARY [params_id req] = Inr (lib # rows) \<and>
            consul_health_service w (agent_tag lib) = Inr (s # ss) \<and>
            ScanPath w (agentAddress (Service s)) (path_on_agent lib) = Inl err \<and>
            (code err = JSNum grpc_status_NOT_FOUND \<or> code err = JSNum grpc_status_UNAVAILABLE) \<longrightarrow>
            fst (post_libraries_id_scan w ch req) =
              \<lparr>status = 503,
               json = [(''message'', JSStr ''Agent service not reachable or not found.'')]\<rparr>) \<and>
         (\<forall>evs err.
            scan_try w ch (params_id req) = (evs, Inl err) \<and>
            code err \<noteq> JSNum grpc_status_DEADLINE_EXCEEDED \<and>
            code err \<noteq> JSNum grpc_status_UNAVAILABLE \<and>
            code err \<noteq> JSNum grpc_status_NOT_FOUND \<longrightarrow>
            post_libraries_id_scan w ch req =
              (\<lparr>status = 500,
                json = [(''message'', JSStr ''Internal server error''), (''error'', message err)]\<rparr>,
               evs)) \<and>
         (\<forall>err. pool_query w SELECT_LIBRARY [params_id req] = Inl err \<longrightarrow>
            scan_try w ch (params_id req) = ([PoolQuery SELECT_LIBRARY [params_id req]], Inl err)) \<and>
         (\<forall>lib rows err.
            pool_query w SELECT_LIBRARY [params_id req] = Inr (lib # rows) \<and>
            consul_health_service w (agent_tag lib) = Inl err \<longrightarrow>
            scan_try w ch (params_id req) =
              ([PoolQuery SELECT_LIBRARY [params_id req], ConsulHealthService (agent_tag lib) True],
               Inl err))"
proof (intro conjI allI impI)
  fix lib rows s ss err
  assume "pool_query w SELECT_LIBRARY [params_id req] = Inr (lib # rows) \<and>
            consul_health_service w (agent_tag lib) = Inr (s # ss) \<and>
            ScanPath w (agentAddress (Service s)) (path_on_agent lib) = Inl err \<and>
            (code err = JSNum grpc_status_NOT_FOUND \<or> code err = JSNum grpc_status_UNAVAILABLE)"
  with assms show "fst (post_libraries_id_scan w ch req) =
              \<lparr>status = 503,
               json = [(''message'', JSStr ''Agent service not reachable or not found.'')]\<rparr>"
    by (auto simp: route_authenticated scan_handler_def scan_try_row scan_resolve_some
        scan_rpc_rejects scan_catch_def grpc_status_NOT_FOUND_def grpc_status_UNAVAILABLE_def
        grpc_status_DEADLINE_EXCEEDED_def)
next
  fix evs err
  assume "scan_try w ch (params_id req) = (evs, Inl err) \<and>
            code err \<noteq> JSNum grpc_status_DEADLINE_EXCEEDED \<and>
            code err \<noteq> JSNum grpc_status_UNAVAILABLE \<and>
            code err \<noteq> JSNum grpc_status_NOT_FOUND"
  with assms show "post_libraries_id_scan w ch req =
              (\<lparr>status = 500,
                json = [(''message'', JSStr ''Internal server error''), (''error'', message err)]\<rparr>,
               evs)"
    by (simp add: route_authenticated scan_handler_def scan_catch_def)
next
  fix err
  assume "pool_query w SELECT_LIBRARY [params_id req] = Inl err"
  then show "scan_try w ch (params_id req) = ([PoolQuery SELECT_LIBRARY [params_id req]], Inl err)"
    by (rule scan_try_query_rejects)
next
  fix lib rows err
  assume "pool_query w SELECT_LIBRARY [params_id req] = Inr (lib # rows) \<and>
            consul_health_service w (agent_tag lib) = Inl err"
  then show "scan_try w ch (params_id req) =
              ([PoolQuery SELECT_LIBRARY [params_id req], ConsulHealthService (agent_tag lib) True],
               Inl err)"
    by (simp add: scan_try_row scan_resolve_rejects)
qed

theorem catch_block_mapping_witness:
  "fst (post_libraries_id_scan world_F None request_1) =
     \<lparr>status = 503, json = [(''message'', JSStr ''Agent service not reachable or not found.'')]\<rparr> \<and>
   post_libraries_id_scan world_G None request_1 =
     (\<lparr>status = 500,
       json = [(''message'', JSStr ''Internal server error''),
               (''error'', JSStr ''connect ECONNREFUSED'')]\<rparr>,
      [PoolQuery SELECT_LIBRARY [''1'']]) \<and>
   post_libraries_id_scan world_E None request_1 =
     (\<lparr>status = 500,
       json = [(''message'', JSStr ''Internal server error''),
               (''error'', JSStr ''connect ECONNREFUSED'')]\<rparr>,
      [PoolQuery SELECT_LIBRARY [''1''], ConsulHealthService ''scanner-a'' True])"
proof -
  have aF: "authenticateToken world_F request_1 = Inr user_ann"
    by (simp add: good_token_accepted world_F_def)
  have bF: "pool_query world_F SELECT_LIBRARY [params_id request_1] = Inr (lib_movies # [])"
    by (simp add: library_1_found world_F_def)
  have cF: "consul_health_service world_F (agent_tag lib_movies) = Inr (agent_a # [agent_b])"
    by (simp add: world_F_def world_A_def)
  have dF: "ScanPath world_F (agentAddress (Service agent_a)) (path_on_agent lib_movies) =
              Inl agent_not_found"
    by (simp add: world_F_def)
  have eF: "code agent_not_found = JSNum grpc_status_NOT_FOUND"
    by (simp add: agent_not_found_def grpc_status_NOT_FOUND_def)
  have 1: "fst (post_libraries_id_scan world_F None request_1) =
     \<lparr>status = 503, json = [(''message'', JSStr ''Agent service not reachable or not found.'')]\<rparr>"
    using catch_block_mapping [OF aF, of None] bF cF dF eF by blast
  have nc: "code econnrefused \<noteq> JSNum grpc_status_DEADLINE_EXCEEDED \<and>
            code econnrefused \<noteq> JSNum grpc_status_UNAVAILABLE \<and>
            code econnrefused \<noteq> JSNum grpc_status_NOT_FOUND"
    by (simp add: econnrefused_def)
  have aG: "authenticateToken world_G request_1 = Inr user_ann"
    by (simp add: good_token_accepted world_G_def)
  have bG: "pool_query world_G SELECT_LIBRARY [params_id request_1] = Inl econnrefused"
    by (simp add: world_G_def)
  have 2: "post_libraries_id_scan world_G None request_1 =
     (\<lparr>status = 500,
       json = [(''message'', JSStr ''Internal server error''), (''error'', message econnrefused)]\<rparr>,
      [PoolQuery SELECT_LIBRARY [params_id request_1]])"
    using catch_block_mapping [OF aG, of None] bG nc by blast
  have aE: "authenticateToken world_E request_1 = Inr user_ann"
    by (simp add: good_token_accepted world_E_def)
  have bE: "pool_query world_E SELECT_LIBRARY [params_id request_1] = Inr (lib_movies # [])"
    by (simp add: library_1_found world_E_def)
  have cE: "consul_health_service world_E (agent_tag lib_movies) = Inl econnrefused"
    by (simp add: world_E_def)
  have 3: "post_libraries_id_scan world_E None request_1 =
     (\<lparr>status = 500,
       json = [(''message'', JSStr ''Internal server error''), (''error'', message econnrefused)]\<rparr>,
      [PoolQuery SELECT_LIBRARY [params_id request_1],
       ConsulHealthService (agent_tag lib_movies) True])"
    using catch_block_mapping [OF aE, of None] bE cE nc by blast
  from 1 2 3 show ?thesis
    by (simp add: econnrefused_def request_1_def lib_movies_def)
qed

text \<open>
  What holds of start-up under every schedule \<open>evs\<close>: every timer that is pending or
  has fired was registered with a delay of 5000 ms; as long as every call of
  \<^verbatim>\<open>connectRabbitMQ\<close> fails, exactly one run or one retry timer of it is pending, so it
  is never given up and never doubled; the same holds of \<^verbatim>\<open>initializeDatabase\<close> as
  long as its query is rejected; and a run whose \<^verbatim>\<open>assertQueue\<close> resolves declares the
  durable queue on its own channel.
\<close>

lemma startup_delays_are_flat:
  "\<forall>t \<in> set (timers (run_events bw evs app_listen)) \<union>
         set (fired (run_events bw evs app_listen)). snd t = 5000"
  by (rule run_events_flat) (simp add: app_listen_def initial_state_def
      initializeDatabase_def connectRabbitMQ_def)

lemma connectRabbitMQ_never_given_up:
  "\<forall>i. amqp_fails bw i \<Longrightarrow> pending Cb_connectRabbitMQ (run_events bw evs app_listen) = 1"
  using run_events_pending_amqp [of bw app_listen evs] app_listen_pending [of bw] by simp

lemma initializeDatabase_never_given_up:
  "\<forall>i. create_table bw i \<noteq> None \<Longrightarrow>
   pending Cb_initializeDatabase (run_events bw evs app_listen) = 1"
  using run_events_pending_db [of bw evs app_listen] app_listen_pending [of bw] by simp

lemma queue_declared_when_connected:
  "k < length (suspended s) \<Longrightarrow> suspended s ! k = Await_assertQueue i c \<Longrightarrow>
   assertQueue bw i = None \<Longrightarrow>
   asserted (step bw (Settle k) s) = asserted s @ [(c, ''metadata_requests'', True)] \<and>
   timers (step bw (Settle k) s) = timers s"
  by (simp add: step_def resume_def METADATA_QUEUE_def)

text \<open>
  C8 (the code departs from the claim). The retries are flat, unbounded and re-declare
  the queue, as the lemmas above say; but a failed attempt does not stay inside
  start-up. \<^verbatim>\<open>connectRabbitMQ\<close> stores the new channel in \<^verbatim>\<open>rabbitChannel\<close> before it
  declares the queue. When the broker accepts the connection and the channel and refuses
  the declaration, the attempt fails and its retry is registered with 5000 ms, the
  queue is not declared, and \<^verbatim>\<open>rabbitChannel\<close> stays set. A scan request that arrives
  then finds a channel, enters the loop, and is answered 500 when the first publish
  throws, as it does on the channel the broker has closed.
\<close>

theorem refused_queue_leaves_channel_set:
  "rabbitChannel after_refused_queue = Some (Channel 0) \<and>
   asserted after_refused_queue = [] \<and>
   timers after_refused_queue = [(Cb_connectRabbitMQ, 5000)] \<and>
   post_libraries_id_scan world_H (rabbitChannel after_refused_queue) request_1 =
     (\<lparr>status = 500,
       json = [(''message'', JSStr ''Internal server error''),
               (''error'', JSStr ''Channel closed'')]\<rparr>,
      [PoolQuery ''SELECT * FROM libraries WHERE id = $1'' [''1''],
       ConsulHealthService ''scanner-a'' True,
       GrpcScanPath ''10.0.0.5:50051'' ''/media/movies'' 601000,
       SendToQueue ''metadata_requests'' (message_of lib_movies file_a) True])"
proof -
  have s: "after_refused_queue =
             \<lparr>rabbitChannel = Some (Channel 0), timers = [(Cb_connectRabbitMQ, 5000)],
              fired = [], suspended = [Await_query 0], asserted = [],
              db_calls = 1, amqp_calls = 1\<rparr>"
    by (simp add: after_refused_queue_def app_listen_def initial_state_def
        initializeDatabase_def connectRabbitMQ_def step_def resume_def setTimeout_def
        boot_queue_refused_def boot_up_def)
  have a: "authenticateToken world_H request_1 = Inr user_ann"
    by (simp add: good_token_accepted world_H_def)
  have b: "pool_query world_H SELECT_LIBRARY [params_id request_1] = Inr (lib_movies # [])"
    by (simp add: library_1_found world_H_def)
  have c: "consul_health_service world_H (agent_tag lib_movies) = Inr (agent_a # [agent_b])"
    by (simp add: world_H_def world_A_def)
  have d: "ScanPath world_H (agentAddress (Service agent_a)) (path_on_agent lib_movies) =
             Inr \<lparr>files_found = Some [file_a, file_b, file_c]\<rparr>"
    by (simp add: world_H_def world_A_def)
  have e: "scan_publish world_H (Some (Channel 0)) lib_movies
             \<lparr>files_found = Some [file_a, file_b, file_c]\<rparr> =
           ([SendToQueue METADATA_QUEUE (message_of lib_movies file_a) True], Inl channel_closed)"
    by (simp add: scan_publish_def filesFound_of_def world_H_def)
  have f: "deadline_of world_H = 601000"
    by (simp add: deadline_of_local world_H_def world_A_def)
  have g: "post_libraries_id_scan world_H (Some (Channel 0)) request_1 =
     (\<lparr>status = 500,
       json = [(''message'', JSStr ''Internal server error''),
               (''error'', JSStr ''Channel closed'')]\<rparr>,
      [PoolQuery ''SELECT * FROM libraries WHERE id = $1'' [''1''],
       ConsulHealthService ''scanner-a'' True,
       GrpcScanPath ''10.0.0.5:50051'' ''/media/movies'' 601000,
       SendToQueue ''metadata_requests'' (message_of lib_movies file_a) True])"
    using a b c d e f agent_a_address
    by (simp add: route_authenticated scan_handler_def scan_try_row scan_resolve_some
        scan_rpc_resolves scan_catch_def channel_closed_def SELECT_LIBRARY_def
        METADATA_QUEUE_def request_1_def lib_movies_def
        grpc_status_DEADLINE_EXCEEDED_def grpc_status_UNAVAILABLE_def grpc_status_NOT_FOUND_def)
  from g show ?thesis unfolding s by simp
qed

end
